theory Spec2Isabelle
  imports Complex_Main "HOL-Library.AList"
begin

section \<open>Data model of app.py\<close>

text \<open>
  The application keeps two dictionaries, \<open>USERS\<close> and \<open>DATA\<close>, each loaded from a JSON
  file when the script starts (lines 61-62) and written back whole by \<open>save_data\<close>.
  Dictionaries keyed by user name or by date are maps; the small dictionaries whose values
  are enumerated (\<open>sum(current_checker.values())\<close>) are association lists in insertion
  order. A key that the code reads with \<open>.get(key, default)\<close> is an optional field.
  Python floats are modelled with the rounding of every operation (section Floating
  point), \<open>int(x)\<close> as truncation towards zero.
\<close>

type_synonym date = int
  \<comment> \<open>a calendar date as its day number; \<open>d - timedelta(days=i)\<close> is \<open>d - i\<close>, and
      \<open>isoformat()\<close> is one-to-one on dates\<close>

datatype py_error = KeyError | ZeroDivisionError

record credential =
  password :: string
  salt :: string

record onboarding_data =
  primary_concerns :: "string list"
  skin_type :: string

record lifestyle =
  sleep_hours :: real
  water_intake :: real
  stress_level :: real
  diet_quality :: real

record analysis =
  image_avg_brightness :: real
  image_redness_factor :: real
  lifestyle_factors :: lifestyle
  detected_skin_type :: string
  current_score :: int
  future_score_proj_7 :: int
  future_score_proj_30 :: int
  future_score_proj_90 :: int
  hydration_score :: int
  acne_risk_pct :: int
  pigmentation_risk_pct :: int
  pore_visibility_estimate :: string
  sleep_impact_pct :: int
  stress_impact_pct :: int
  product_categories :: "string list"
  lifestyle_actions :: string
  routine_morning :: "string list"
  routine_evening :: "string list"

record day_entry =
  morning :: "(nat \<times> bool) list option"
  evening :: "(nat \<times> bool) list option"
  is_complete :: "bool option"
  points_awarded :: "int option"
  checker :: "(string \<times> bool) list option"
  checker_points_awarded :: "int option"

record user_data =
  onboarding :: "onboarding_data option"
  analysis_history :: "analysis list"
  points :: "int option"
  daily_completion :: "date \<rightharpoonup> day_entry"

record app_state =
  USERS :: "string \<rightharpoonup> credential"
  DATA :: "string \<rightharpoonup> user_data"
  users_file :: "string \<rightharpoonup> credential"
  data_file :: "string \<rightharpoonup> user_data"

section \<open>Floating point\<close>

text \<open>
  A Python float is an IEEE 754 binary64 number, and every arithmetic operation returns
  the exact result rounded to the nearest such number, ties to the even significand.
  \<open>fl\<close> is that rounding: the absolute value is scaled by a power of two into
  \<open>[2^52, 2^53)\<close>, rounded to an integer (\<open>rne\<close>) and scaled back. The exponent is
  not bounded: overflow and subnormal numbers, which no value computed here comes near,
  are not modelled. A float is a real that \<open>fl\<close> leaves unchanged; a decimal literal
  of the source such as \<open>0.4\<close> denotes \<open>fl 0.4\<close>; integers are exact.
\<close>

definition rne :: "real \<Rightarrow> int" where
  "rne x = (let n = \<lfloor>x\<rfloor>; d = x - of_int n
            in if d < 1 / 2 then n else if 1 / 2 < d then n + 1
               else if even n then n else n + 1)"

function halvings :: "real \<Rightarrow> nat" where
  "halvings x = (if 2 ^ 53 \<le> x then Suc (halvings (x / 2)) else 0)"
  by pat_completeness auto
termination
proof (relation "measure (\<lambda>x. nat \<lceil>x\<rceil>)")
  show "wf (measure (\<lambda>x. nat \<lceil>x\<rceil>))" by simp
next
  fix x :: real
  assume "2 ^ 53 \<le> x"
  then have "2 \<le> x" by simp
  then have "x / 2 + 1 \<le> x" by simp
  then have "\<lceil>x / 2\<rceil> + 1 \<le> \<lceil>x\<rceil>"
    by (metis ceiling_add_one ceiling_mono)
  moreover from \<open>2 \<le> x\<close> have "0 < \<lceil>x\<rceil>" by simp
  ultimately show "(x / 2, x) \<in> measure (\<lambda>x. nat \<lceil>x\<rceil>)"
    by simp
qed

function doublings :: "real \<Rightarrow> nat" where
  "doublings x = (if 0 < x \<and> x < 2 ^ 52 then Suc (doublings (x * 2)) else 0)"
  by pat_completeness auto
termination
proof (relation "measure (\<lambda>x. nat \<lceil>2 ^ 52 / x\<rceil>)")
  show "wf (measure (\<lambda>x. nat \<lceil>2 ^ 52 / x\<rceil>))" by simp
next
  fix x :: real
  assume a: "0 < x \<and> x < 2 ^ 52"
  define y where "y = 2 ^ 52 / x"
  from a have y: "1 < y" by (simp add: y_def)
  then have "1 < \<lceil>y\<rceil>" by (simp add: less_ceiling_iff)
  then have n: "2 \<le> \<lceil>y\<rceil>" by simp
  have c1: "y \<le> of_int \<lceil>y\<rceil>" by (rule le_of_int_ceiling)
  from n have c2: "(2::real) \<le> of_int \<lceil>y\<rceil>"
    using of_int_le_iff [of 2 "\<lceil>y\<rceil>", where ?'a = real] by simp
  from c1 c2 have "y / 2 \<le> of_int \<lceil>y\<rceil> - 1" by linarith
  then have "y / 2 \<le> of_int (\<lceil>y\<rceil> - 1)" by simp
  then have "\<lceil>y / 2\<rceil> \<le> \<lceil>y\<rceil> - 1" by (rule ceiling_le)
  then have "\<lceil>y / 2\<rceil> < \<lceil>y\<rceil>" by simp
  moreover from a have "2 ^ 52 / (x * 2) = y / 2" by (simp add: y_def)
  moreover from n have "0 < \<lceil>y\<rceil>" by simp
  ultimately show "(x * 2, x) \<in> measure (\<lambda>x. nat \<lceil>2 ^ 52 / x\<rceil>)"
    by (simp add: y_def)
qed

declare halvings.simps [simp del] doublings.simps [simp del]

definition fl :: "real \<Rightarrow> real" where
  "fl x = (if x = 0 then 0 else
     (let a = \<bar>x\<bar>; h = halvings a; d = doublings a;
          m = (if 0 < h then of_int (rne (a / 2 ^ h)) * 2 ^ h
               else of_int (rne (a * 2 ^ d)) / 2 ^ d)
      in if x < 0 then - m else m))"

definition fadd :: "real \<Rightarrow> real \<Rightarrow> real" where
  "fadd x y = fl (x + y)"

definition fsub :: "real \<Rightarrow> real \<Rightarrow> real" where
  "fsub x y = fl (x - y)"

definition fmul :: "real \<Rightarrow> real \<Rightarrow> real" where
  "fmul x y = fl (x * y)"

definition fdiv :: "real \<Rightarrow> real \<Rightarrow> real" where
  "fdiv x y = fl (x / y)"

section \<open>Scoring engine: pseudo_analyze_image (lines 593-720)\<close>

definition py_int :: "real \<Rightarrow> int" where
  "py_int x = (if 0 \<le> x then \<lfloor>x\<rfloor> else \<lceil>x\<rceil>)"

text \<open>
  The argument of \<open>image_features\<close> is what the \<open>try\<close> block computed: \<open>None\<close> when any
  statement in it raised, otherwise the three channel means \<open>rgb_mean\<close>. The result is
  \<open>(avg_brightness, contrast_heuristic, redness_factor)\<close>. \<open>sum(rgb_mean)\<close> is taken
  as the additions from the left, starting at 0.
\<close>

definition image_features :: "(real \<times> real \<times> real) option \<Rightarrow> real \<times> real \<times> real" where
  "image_features img =
     (case img of
        Some (r, g, b) \<Rightarrow>
          (let avg_brightness = fdiv (fadd (fadd (fadd 0 r) g) b) 3;
               contrast_heuristic = (if avg_brightness < 100 \<or> avg_brightness > 200 then 0.5 else 1.0);
               redness_factor = (if r > fmul g (fl 1.1) \<and> r > fmul b (fl 1.1) then fl 1.2 else 1.0)
           in (avg_brightness, contrast_heuristic, redness_factor))
      | None \<Rightarrow> (150, 1.0, 1.0))"

definition sleep_score :: "lifestyle \<Rightarrow> real" where
  "sleep_score lf = fdiv (fsub (sleep_hours lf) 5) 5"

definition water_score :: "lifestyle \<Rightarrow> real" where
  "water_score lf = fdiv (water_intake lf) 4"

definition stress_score :: "lifestyle \<Rightarrow> real" where
  "stress_score lf = fdiv (fsub 10 (stress_level lf)) 10"

definition diet_score :: "lifestyle \<Rightarrow> real" where
  "diet_score lf = fdiv (diet_quality lf) 5"

definition base_image_score :: "real \<Rightarrow> real \<Rightarrow> real" where
  "base_image_score avg_brightness contrast_heuristic =
     fadd (fmul (fdiv avg_brightness 255.0) (fl 0.4)) (fmul (fsub 1.0 contrast_heuristic) (fl 0.2))"

definition lifestyle_impact_score :: "lifestyle \<Rightarrow> real" where
  "lifestyle_impact_score lf =
     fadd (fadd (fadd (fmul (sleep_score lf) 0.25) (fmul (water_score lf) 0.25))
                (fmul (stress_score lf) (fl 0.35)))
          (fmul (diet_score lf) (fl 0.15))"

definition raw_score :: "real \<times> real \<times> real \<Rightarrow> lifestyle \<Rightarrow> real" where
  "raw_score f lf =
     (case f of (avg_brightness, contrast_heuristic, redness_factor) \<Rightarrow>
        fmul (fmul (fadd (fmul (base_image_score avg_brightness contrast_heuristic) (fl 0.4))
                         (fmul (lifestyle_impact_score lf) (fl 0.6)))
                   100)
             (fdiv 1 redness_factor))"

definition hydration_raw :: "real \<Rightarrow> lifestyle \<Rightarrow> real" where
  "hydration_raw avg_brightness lf =
     fmul (fadd (fmul (water_score lf) (fl 0.6)) (fmul (fdiv avg_brightness 255) (fl 0.4))) 100"

definition base_risk_of :: "int \<Rightarrow> string \<Rightarrow> real" where
  "base_risk_of cur onboard_skin_type =
     (let base_risk = fsub 50 (fdiv (real_of_int cur) 2)
      in if onboard_skin_type \<in> set [''Oily'', ''Combination''] then fadd base_risk 10 else base_risk)"

definition acne_raw :: "int \<Rightarrow> string \<Rightarrow> lifestyle \<Rightarrow> real" where
  "acne_raw cur onboard_skin_type lf =
     fadd (fadd (base_risk_of cur onboard_skin_type) (fmul (fsub 1 (stress_score lf)) 15))
          (fmul (fsub 1 (diet_score lf)) 10)"

definition pigmentation_raw :: "real \<Rightarrow> real \<Rightarrow> lifestyle \<Rightarrow> real" where
  "pigmentation_raw avg_brightness contrast_heuristic lf =
     fadd (fadd 20 (fmul (fsub 1 (base_image_score avg_brightness contrast_heuristic)) 15))
          (fmul (fsub 1 (water_score lf)) 10)"

definition future_raw :: "lifestyle \<Rightarrow> real" where
  "future_raw lf = fmul (fsub (lifestyle_impact_score lf) 0.5) 20"

definition sleep_impact_raw :: "lifestyle \<Rightarrow> real" where
  "sleep_impact_raw lf = fmul (fsub 1 (sleep_score lf)) 100"

definition stress_impact_raw :: "lifestyle \<Rightarrow> real" where
  "stress_impact_raw lf = fmul (fsub 1 (stress_score lf)) 100"

definition future_delta :: "lifestyle \<Rightarrow> int" where
  "future_delta lf = py_int (future_raw lf)"

text \<open>
  The locals of the function after the \<open>try/except\<close>, one definition each, in the
  order of the source. \<open>cur\<close> is the clamped \<open>current_score\<close>, \<open>acne\<close> the clamped
  \<open>acne_risk_pct\<close>.
\<close>

definition current_score_of :: "real \<times> real \<times> real \<Rightarrow> lifestyle \<Rightarrow> int" where
  "current_score_of f lf = max 50 (min 95 (py_int (raw_score f lf)))"

definition hydration_score_of :: "real \<Rightarrow> lifestyle \<Rightarrow> int" where
  "hydration_score_of avg_brightness lf = max 50 (min 99 (py_int (hydration_raw avg_brightness lf)))"

definition acne_risk_of :: "int \<Rightarrow> string \<Rightarrow> lifestyle \<Rightarrow> int" where
  "acne_risk_of cur onboard_skin_type lf = min 90 (max 10 (py_int (acne_raw cur onboard_skin_type lf)))"

definition pigmentation_risk_of :: "real \<Rightarrow> real \<Rightarrow> lifestyle \<Rightarrow> int" where
  "pigmentation_risk_of avg_brightness contrast_heuristic lf =
     min 70 (max 5 (py_int (pigmentation_raw avg_brightness contrast_heuristic lf)))"

definition proj_7 :: "int \<Rightarrow> lifestyle \<Rightarrow> int" where
  "proj_7 cur lf = min 100 (cur + max 0 (future_delta lf div 3))"

definition proj_30 :: "int \<Rightarrow> lifestyle \<Rightarrow> int" where
  "proj_30 cur lf = min 100 (cur + max 0 (future_delta lf))"

definition proj_90 :: "int \<Rightarrow> lifestyle \<Rightarrow> int" where
  "proj_90 cur lf = min 100 (cur + max 0 (future_delta lf * 2))"

definition morning_routine :: "string list" where
  "morning_routine = [''Cleanse: Gentle Hydrating Cleanser'',
                      ''Treat: Vitamin C Serum'',
                      ''Protect: SPF 30+ Sunscreen'']"

definition evening_routine_of :: "string list \<Rightarrow> int \<Rightarrow> string list" where
  "evening_routine_of concerns acne =
     (let evening_routine = [''Cleanse: Double Cleanse (Oil + Foam)'',
                             ''Treat: Niacinamide Serum'',
                             ''Moisturize: Barrier Repair Cream''];
          evening_routine = (if ''Acne'' \<in> set concerns \<or> acne > 50
                             then evening_routine[1 := ''Treat: Salicylic Acid (BHA) Serum'']
                             else evening_routine)
      in if ''Wrinkles'' \<in> set concerns
         then evening_routine @ [''Treat: Retinoid Cream (3x/week)'']
         else evening_routine)"

definition pore_visibility_of :: "string \<Rightarrow> int \<Rightarrow> string" where
  "pore_visibility_of onboard_skin_type acne =
     (if onboard_skin_type \<in> set [''Oily'', ''Combination''] \<or> acne > 50 then ''High'' else ''Low'')"

definition analysis_results ::
    "real \<times> real \<times> real \<Rightarrow> lifestyle \<Rightarrow> onboarding_data \<Rightarrow> int \<Rightarrow> int \<Rightarrow> analysis" where
  "analysis_results f lf ob cur acne =
     (case f of (avg_brightness, contrast_heuristic, redness_factor) \<Rightarrow>
        \<lparr> image_avg_brightness = avg_brightness,
          image_redness_factor = redness_factor,
          lifestyle_factors = lf,
          detected_skin_type = skin_type ob,
          current_score = cur,
          future_score_proj_7 = proj_7 cur lf,
          future_score_proj_30 = proj_30 cur lf,
          future_score_proj_90 = proj_90 cur lf,
          hydration_score = hydration_score_of avg_brightness lf,
          acne_risk_pct = acne,
          pigmentation_risk_pct = pigmentation_risk_of avg_brightness contrast_heuristic lf,
          pore_visibility_estimate = pore_visibility_of (skin_type ob) acne,
          sleep_impact_pct = py_int (sleep_impact_raw lf),
          stress_impact_pct = py_int (stress_impact_raw lf),
          product_categories = [''Hyaluronic Acid Serums'', ''Ceramide Moisturizers'',
                                ''Broad Spectrum Sunscreens''],
          lifestyle_actions = ''Focus on **Stress Reduction** (daily 10 min meditation). Increase **Water Intake** to 3L/day. Target 8 hours of sleep.'',
          routine_morning = morning_routine,
          routine_evening = evening_routine_of (primary_concerns ob) acne \<rparr>)"

text \<open>
  Everything after the \<open>try/except\<close>. The only statements that can still raise are the
  reads \<open>user_data['onboarding']['skin_type']\<close> and \<open>['primary_concerns']\<close>, which
  fail with KeyError on the empty onboarding dictionary. The \<open>timestamp\<close> and the
  \<open>explanation\<close> text are not modelled.
\<close>

definition analysis_from_features ::
    "real \<times> real \<times> real \<Rightarrow> lifestyle \<Rightarrow> user_data \<Rightarrow> py_error + analysis" where
  "analysis_from_features f lf ud =
     (case onboarding ud of
        None \<Rightarrow> Inl KeyError
      | Some ob \<Rightarrow>
          Inr (analysis_results f lf ob (current_score_of f lf)
                 (acne_risk_of (current_score_of f lf) (skin_type ob) lf)))"

definition pseudo_analyze_image ::
    "(real \<times> real \<times> real) option \<Rightarrow> lifestyle \<Rightarrow> user_data \<Rightarrow> py_error + analysis" where
  "pseudo_analyze_image img lf ud = analysis_from_features (image_features img) lf ud"

text \<open>The sliders of the analyzer form (lines 743-746) give the documented ranges.\<close>

definition valid_lifestyle :: "lifestyle \<Rightarrow> bool" where
  "valid_lifestyle lf \<longleftrightarrow>
     4 \<le> sleep_hours lf \<and> sleep_hours lf \<le> 12 \<and>
     0.5 \<le> water_intake lf \<and> water_intake lf \<le> 4.0 \<and>
     1 \<le> stress_level lf \<and> stress_level lf \<le> 10 \<and>
     1 \<le> diet_quality lf \<and> diet_quality lf \<le> 5"

section \<open>Record store and points (lines 37-216)\<close>

text \<open>
  \<open>save_data\<close> overwrites the whole file with the dictionary in memory. Streamlit runs the
  script from the top on every interaction, so lines 61-62 reload both dictionaries from
  the files at the start of each run (\<open>script_start\<close>); a file that does not exist yet
  loads as the empty dictionary. Write failures of the file system are not modelled.
\<close>

definition save_USERS :: "app_state \<Rightarrow> app_state" where
  "save_USERS st = st\<lparr>users_file := USERS st\<rparr>"

definition save_DATA :: "app_state \<Rightarrow> app_state" where
  "save_DATA st = st\<lparr>data_file := DATA st\<rparr>"

definition script_start :: "app_state \<Rightarrow> app_state" where
  "script_start st = st\<lparr>USERS := users_file st, DATA := data_file st\<rparr>"

definition new_user_data :: user_data where
  "new_user_data = \<lparr>onboarding = None, analysis_history = [], points = Some 0,
                      daily_completion = Map.empty\<rparr>"

definition set_user :: "app_state \<Rightarrow> string \<Rightarrow> user_data \<Rightarrow> app_state" where
  "set_user st username u = st\<lparr>DATA := (DATA st)(username \<mapsto> u)\<rparr>"

definition get_user_data :: "app_state \<Rightarrow> string \<Rightarrow> user_data \<times> app_state" where
  "get_user_data st username =
     (case DATA st username of
        None \<Rightarrow> (new_user_data, save_DATA (set_user st username new_user_data))
      | Some u \<Rightarrow> (u, st))"

definition get_points :: "user_data \<Rightarrow> int" where
  "get_points u = (case points u of None \<Rightarrow> 0 | Some p \<Rightarrow> p)"

definition update_user_points :: "app_state \<Rightarrow> string \<Rightarrow> int \<Rightarrow> py_error + app_state" where
  "update_user_points st username pts =
     (case DATA st username of
        None \<Rightarrow> Inl KeyError
      | Some u \<Rightarrow> Inr (save_DATA (set_user st username (u\<lparr>points := Some (get_points u + pts)\<rparr>))))"

section \<open>Credentials (lines 185-194, 242-281)\<close>

text \<open>
  The digest \<open>hashlib.sha256(...).hexdigest()\<close> and the random \<open>uuid.uuid4().hex\<close> are
  parameters: \<open>sha256\<close> is any function on strings, \<open>uuid\<close> the value drawn by this call.
\<close>

definition hash_password ::
    "(string \<Rightarrow> string) \<Rightarrow> string \<Rightarrow> string \<Rightarrow> string option \<Rightarrow> string \<times> string" where
  "hash_password sha256 uuid pw salt_arg =
     (let s = (case salt_arg of None \<Rightarrow> uuid | Some s' \<Rightarrow> s')
      in (sha256 (pw @ s), s))"

definition check_password :: "(string \<Rightarrow> string) \<Rightarrow> string \<Rightarrow> string \<Rightarrow> string \<Rightarrow> bool" where
  "check_password sha256 hashed_password pw s \<longleftrightarrow> hashed_password = sha256 (pw @ s)"

datatype message = login_success | invalid_cred | user_exists | empty_fields | reg_success

definition login_form :: "(string \<Rightarrow> string) \<Rightarrow> app_state \<Rightarrow> string \<Rightarrow> string \<Rightarrow> message" where
  "login_form sha256 st username pw =
     (case USERS st username of
        Some user_record \<Rightarrow>
          (if check_password sha256 (password user_record) pw (salt user_record)
           then login_success else invalid_cred)
      | None \<Rightarrow> invalid_cred)"

definition register_form ::
    "(string \<Rightarrow> string) \<Rightarrow> string \<Rightarrow> app_state \<Rightarrow> string \<Rightarrow> string \<Rightarrow> message \<times> app_state" where
  "register_form sha256 uuid st new_username new_password =
     (if new_username \<in> dom (USERS st) then (user_exists, st)
      else if new_username = [] \<or> new_password = [] then (empty_fields, st)
      else (case hash_password sha256 uuid new_password None of
              (hashed_pass, s) \<Rightarrow>
                (let st1 = st\<lparr>USERS := (USERS st)(new_username \<mapsto> \<lparr>password = hashed_pass, salt = s\<rparr>)\<rparr>;
                     st2 = save_USERS st1
                 in (reg_success, snd (get_user_data st2 new_username)))))"

section \<open>Streak on the dashboard (lines 431-448)\<close>

definition entry_is_complete :: "day_entry option \<Rightarrow> bool" where
  "entry_is_complete eo =
     (case eo of None \<Rightarrow> False
      | Some e \<Rightarrow> (case is_complete e of None \<Rightarrow> False | Some b \<Rightarrow> b))"

text \<open>The \<open>for i in range(1, 100)\<close> loop with its \<open>break\<close>, over the list of the range.\<close>

fun streak_loop :: "(date \<rightharpoonup> day_entry) \<Rightarrow> date \<Rightarrow> nat list \<Rightarrow> nat \<Rightarrow> nat" where
  "streak_loop daily_completions today [] streak_count = streak_count"
| "streak_loop daily_completions today (i # rest) streak_count =
     (if entry_is_complete (daily_completions (today - int i))
      then streak_loop daily_completions today rest (streak_count + 1)
      else streak_count)"

definition streak :: "(date \<rightharpoonup> day_entry) \<Rightarrow> date \<Rightarrow> nat" where
  "streak daily_completions today =
     (if entry_is_complete (daily_completions (today - 1))
      then streak_loop daily_completions today [1..<100] 0
      else 0)"

section \<open>Routine tracking: my_routine_page (lines 831-924)\<close>

text \<open>
  The step key \<open>morning_i\<close> (or \<open>evening_i\<close>) is the index \<open>i\<close>. The checkbox values are
  the inputs \<open>morning_ticked\<close> and \<open>evening_ticked\<close>; \<open>button\<close> says whether the finalize
  button was pressed in this run. When the date already has an entry, \<open>daily_completion\<close>
  is that stored dictionary itself, so the checkbox loops write into \<open>DATA\<close> in memory
  (\<open>write_through\<close>); otherwise it is a fresh dictionary. The page returns the exception
  that ended the run, if any, and the state at that point.
\<close>

definition tick_steps :: "(nat \<times> bool) list \<Rightarrow> nat \<Rightarrow> (nat \<Rightarrow> bool) \<Rightarrow> (nat \<times> bool) list" where
  "tick_steps d n ticked = foldl (\<lambda>acc i. AList.update i (ticked i) acc) d [0..<n]"

definition count_ticked :: "nat \<Rightarrow> (nat \<Rightarrow> bool) \<Rightarrow> nat" where
  "count_ticked n ticked = length (filter ticked [0..<n])"

definition write_through :: "day_entry option \<Rightarrow> user_data \<Rightarrow> date \<Rightarrow> day_entry \<Rightarrow> user_data" where
  "write_through stored u today dc =
     (case stored of
        None \<Rightarrow> u
      | Some _ \<Rightarrow> u\<lparr>daily_completion := (daily_completion u)(today \<mapsto> dc)\<rparr>)"

definition finalize_routine ::
    "app_state \<Rightarrow> string \<Rightarrow> user_data \<Rightarrow> date \<Rightarrow> day_entry \<Rightarrow> bool \<Rightarrow> py_error option \<times> app_state" where
  "finalize_routine st username u today dc is_complete_today =
     (if \<not> entry_is_complete (daily_completion u today) then
        (let points_to_award = (if is_complete_today then 5 else 0);
             u' = u\<lparr>daily_completion := (daily_completion u)(today \<mapsto>
                      \<lparr>morning = morning dc, evening = evening dc,
                        is_complete = Some is_complete_today,
                        points_awarded = Some points_to_award,
                        checker = None, checker_points_awarded = None\<rparr>)\<rparr>;
             st' = set_user st username u'
         in if points_to_award > 0 then
              (case update_user_points st' username points_to_award of
                 Inl e \<Rightarrow> (Some e, st')
               | Inr st'' \<Rightarrow> (None, save_DATA st''))
            else (None, save_DATA st'))
      else (None, st))"

definition my_routine_page ::
    "app_state \<Rightarrow> string \<Rightarrow> date \<Rightarrow> (nat \<Rightarrow> bool) \<Rightarrow> (nat \<Rightarrow> bool) \<Rightarrow> bool
       \<Rightarrow> py_error option \<times> app_state" where
  "my_routine_page st0 username today morning_ticked evening_ticked button =
     (case get_user_data st0 username of (u0, st) \<Rightarrow>
      if analysis_history u0 = [] then (None, st)
      else
       (let last_analysis = last (analysis_history u0);
            total_morning = length (routine_morning last_analysis);
            total_evening = length (routine_evening last_analysis);
            stored = daily_completion u0 today;
            dc = (case stored of
                    None \<Rightarrow> \<lparr>morning = Some [], evening = Some [], is_complete = None,
                              points_awarded = None, checker = None,
                              checker_points_awarded = None\<rparr>
                  | Some e \<Rightarrow> e)
        in if total_morning = 0 then (Some ZeroDivisionError, st)
           else case morning dc of
             None \<Rightarrow> (Some KeyError, st)
           | Some m \<Rightarrow>
              (let dc1 = dc\<lparr>morning := Some (tick_steps m total_morning morning_ticked)\<rparr>;
                   u1 = write_through stored u0 today dc1;
                   morning_completed = count_ticked total_morning morning_ticked
               in if total_evening = 0 then (Some ZeroDivisionError, set_user st username u1)
                  else case evening dc1 of
                    None \<Rightarrow> (Some KeyError, set_user st username u1)
                  | Some ev \<Rightarrow>
                     (let dc2 = dc1\<lparr>evening := Some (tick_steps ev total_evening evening_ticked)\<rparr>;
                          u2 = write_through stored u0 today dc2;
                          evening_completed = count_ticked total_evening evening_ticked;
                          total_steps = total_morning + total_evening;
                          total_completed = morning_completed + evening_completed;
                          is_complete_today = (total_completed = total_steps)
                      in if button
                         then finalize_routine (set_user st username u2) username u2 today dc2
                                is_complete_today
                         else (None, set_user st username u2)))))"

section \<open>Daily checker: daily_routine_ai_checker_page (lines 1327-1424)\<close>

definition tasks :: "string list" where
  "tasks = [''AM_1'', ''AM_2'', ''AM_3'', ''AM_4'', ''AM_5'',
            ''PM_1'', ''PM_2'', ''PM_3'', ''PM_4'', ''PM_5'',
            ''LIFE_1'', ''LIFE_2'', ''LIFE_3'', ''LIFE_4'', ''LIFE_5'']"

definition tick_tasks :: "(string \<times> bool) list \<Rightarrow> (string \<Rightarrow> bool) \<Rightarrow> (string \<times> bool) list" where
  "tick_tasks d ticked = foldl (\<lambda>acc k. AList.update k (ticked k) acc) d tasks"

definition completed_tasks :: "(string \<times> bool) list \<Rightarrow> int" where
  "completed_tasks current_checker = int (length (filter snd current_checker))"

text \<open>
  \<open>checker_view\<close> is the part of the page before the button: the entry \<open>daily_completion\<close>
  after the checkbox loops, the dictionary \<open>current_checker\<close>, and the user record in
  memory. \<open>current_checker\<close> is the stored dictionary itself when the entry has one
  (the loops then write into \<open>DATA\<close>), and a fresh one otherwise.
\<close>

definition checker_view ::
    "user_data \<Rightarrow> date \<Rightarrow> (string \<Rightarrow> bool) \<Rightarrow> day_entry \<times> (string \<times> bool) list \<times> user_data" where
  "checker_view u0 today ticked =
     (let stored = daily_completion u0 today;
          dc = (case stored of
                  None \<Rightarrow> \<lparr>morning = None, evening = None, is_complete = None,
                            points_awarded = None, checker = Some [],
                            checker_points_awarded = None\<rparr>
                | Some e \<Rightarrow> e);
          current_checker = tick_tasks (case checker dc of None \<Rightarrow> [] | Some c \<Rightarrow> c) ticked;
          dc1 = (case checker dc of None \<Rightarrow> dc | Some _ \<Rightarrow> dc\<lparr>checker := Some current_checker\<rparr>)
      in (dc1, current_checker, write_through stored u0 today dc1))"

definition get_checker_points_awarded :: "day_entry \<Rightarrow> int" where
  "get_checker_points_awarded e = (case checker_points_awarded e of None \<Rightarrow> 0 | Some a \<Rightarrow> a)"

definition daily_routine_ai_checker_page ::
    "app_state \<Rightarrow> string \<Rightarrow> date \<Rightarrow> (string \<Rightarrow> bool) \<Rightarrow> bool \<Rightarrow> py_error option \<times> app_state" where
  "daily_routine_ai_checker_page st0 username today ticked button =
     (case get_user_data st0 username of (u0, st) \<Rightarrow>
      case checker_view u0 today ticked of (dc1, current_checker, u1) \<Rightarrow>
       (let cur = completed_tasks current_checker * 5;
            st1 = set_user st username u1
        in if \<not> button then (None, st1)
           else
            (let already_awarded = get_checker_points_awarded dc1;
                 new_points = cur - already_awarded
             in if new_points > 0 then
                  (case update_user_points st1 username new_points of
                     Inl e \<Rightarrow> (Some e, st1)
                   | Inr st2 \<Rightarrow>
                      (case DATA st2 username of
                         None \<Rightarrow> (Some KeyError, st2)
                       | Some u2 \<Rightarrow>
                          (let dc2 = dc1\<lparr>checker := Some current_checker,
                                        checker_points_awarded := Some cur\<rparr>;
                               u3 = u2\<lparr>daily_completion := (daily_completion u2)(today \<mapsto> dc2)\<rparr>
                           in (None, save_DATA (set_user st2 username u3)))))
                else if new_points < 0 then
                  (let dc2 = dc1\<lparr>checker := Some current_checker\<rparr>;
                       u3 = u1\<lparr>daily_completion := (daily_completion u1)(today \<mapsto> dc2)\<rparr>
                   in (None, save_DATA (set_user st1 username u3)))
                else (None, st1))))"

text \<open>
  One press of the finalize button is one run of the script: reload, render the page
  with the ticks of that run, handle the button. A sequence of presses on one date:
\<close>

definition routine_finalize :: "app_state \<Rightarrow> string \<Rightarrow> date \<Rightarrow> (nat \<Rightarrow> bool) \<times> (nat \<Rightarrow> bool) \<Rightarrow> app_state" where
  "routine_finalize st username today ticks =
     snd (my_routine_page (script_start st) username today (fst ticks) (snd ticks) True)"

definition checker_finalize :: "app_state \<Rightarrow> string \<Rightarrow> date \<Rightarrow> (string \<Rightarrow> bool) \<Rightarrow> app_state" where
  "checker_finalize st username today ticked =
     snd (daily_routine_ai_checker_page (script_start st) username today ticked True)"

text \<open>The task count that the run of \<open>checker_finalize\<close> computes (\<open>completed_tasks\<close>).\<close>

definition observed_count :: "app_state \<Rightarrow> string \<Rightarrow> date \<Rightarrow> (string \<Rightarrow> bool) \<Rightarrow> int" where
  "observed_count st username today ticked =
     (case get_user_data (script_start st) username of (u0, _) \<Rightarrow>
      case checker_view u0 today ticked of (_, current_checker, _) \<Rightarrow>
        completed_tasks current_checker)"

fun checker_finalizes :: "app_state \<Rightarrow> string \<Rightarrow> date \<Rightarrow> (string \<Rightarrow> bool) list \<Rightarrow> app_state" where
  "checker_finalizes st username today [] = st"
| "checker_finalizes st username today (t # ts) =
     checker_finalizes (checker_finalize st username today t) username today ts"

fun observed_counts :: "app_state \<Rightarrow> string \<Rightarrow> date \<Rightarrow> (string \<Rightarrow> bool) list \<Rightarrow> int list" where
  "observed_counts st username today [] = []"
| "observed_counts st username today (t # ts) =
     observed_count st username today t
       # observed_counts (checker_finalize st username today t) username today ts"

text \<open>What the files hold for a user and a date.\<close>

definition stored_points :: "app_state \<Rightarrow> string \<Rightarrow> int" where
  "stored_points st username = (case data_file st username of None \<Rightarrow> 0 | Some u \<Rightarrow> get_points u)"

definition stored_entry :: "app_state \<Rightarrow> string \<Rightarrow> date \<Rightarrow> day_entry option" where
  "stored_entry st username today =
     (case data_file st username of None \<Rightarrow> None | Some u \<Rightarrow> daily_completion u today)"

definition stored_checker_award :: "app_state \<Rightarrow> string \<Rightarrow> date \<Rightarrow> int" where
  "stored_checker_award st username today =
     (case stored_entry st username today of None \<Rightarrow> 0 | Some e \<Rightarrow> get_checker_points_awarded e)"

section \<open>Exact formulas of the specification\<close>

text \<open>
  What it means for an integer to be a real number with its fractional part dropped, and
  two formulas of section 4.3 of the specification over the exact reals, for comparison
  with rounding to the nearest integer.
\<close>

definition is_truncation :: "real \<Rightarrow> int \<Rightarrow> bool" where
  "is_truncation x n \<longleftrightarrow>
     (0 \<le> x \<longrightarrow> of_int n \<le> x \<and> x < of_int n + 1) \<and>
     (x < 0 \<longrightarrow> x \<le> of_int n \<and> of_int n - 1 < x)"

definition spec_hydration_raw :: "real \<Rightarrow> lifestyle \<Rightarrow> real" where
  "spec_hydration_raw brightness lf = (water_intake lf / 4 * 0.6 + brightness * 0.4) * 100"

definition spec_stress_impact_raw :: "lifestyle \<Rightarrow> real" where
  "spec_stress_impact_raw lf = (1 - (10 - stress_level lf) / 10) * 100"

section \<open>Notions used in the statements\<close>

text \<open>
  The N days ending yesterday are complete and the day before them is not.
\<close>

definition complete_run :: "(date \<rightharpoonup> day_entry) \<Rightarrow> date \<Rightarrow> nat \<Rightarrow> bool" where
  "complete_run dc today n \<longleftrightarrow>
     list_all (\<lambda>i. entry_is_complete (dc (today - int i))) [1..<Suc n]
     \<and> \<not> entry_is_complete (dc (today - int (Suc n)))"

text \<open>The step dictionary that the page starts from: the stored one, or an empty one.\<close>

definition stored_steps ::
    "(day_entry \<Rightarrow> (nat \<times> bool) list option) \<Rightarrow> day_entry option \<Rightarrow> (nat \<times> bool) list" where
  "stored_steps sel eo =
     (case eo of None \<Rightarrow> [] | Some e \<Rightarrow> (case sel e of None \<Rightarrow> [] | Some d \<Rightarrow> d))"

text \<open>The dictionary \<open>current_checker\<close> that the run of \<open>checker_finalize\<close> computes.\<close>

definition observed_checker :: "app_state \<Rightarrow> string \<Rightarrow> date \<Rightarrow> (string \<Rightarrow> bool) \<Rightarrow> (string \<times> bool) list" where
  "observed_checker st username today ticked =
     (case get_user_data (script_start st) username of (u0, _) \<Rightarrow>
      case checker_view u0 today ticked of (_, current_checker, _) \<Rightarrow> current_checker)"

section \<open>Concrete inputs\<close>

definition demo_lifestyle :: lifestyle where
  "demo_lifestyle = \<lparr>sleep_hours = 7, water_intake = 2.0, stress_level = 5, diet_quality = 3\<rparr>"

definition rounding_lifestyle :: lifestyle where
  "rounding_lifestyle = \<lparr>sleep_hours = 7, water_intake = 3.0, stress_level = 5, diet_quality = 3\<rparr>"

definition calm_lifestyle :: lifestyle where
  "calm_lifestyle = \<lparr>sleep_hours = 7, water_intake = 2.0, stress_level = 1, diet_quality = 3\<rparr>"

definition rested_lifestyle :: lifestyle where
  "rested_lifestyle = \<lparr>sleep_hours = 9, water_intake = 2.0, stress_level = 5, diet_quality = 3\<rparr>"

definition delta_lifestyle :: lifestyle where
  "delta_lifestyle = \<lparr>sleep_hours = 7, water_intake = 4.0, stress_level = 4, diet_quality = 3\<rparr>"

definition demo_onboarding :: onboarding_data where
  "demo_onboarding = \<lparr>primary_concerns = [''Wrinkles''], skin_type = ''Oily''\<rparr>"

definition demo_user :: user_data where
  "demo_user = \<lparr>onboarding = Some demo_onboarding, analysis_history = [], points = Some 0,
                  daily_completion = Map.empty\<rparr>"

definition complete_entry :: day_entry where
  "complete_entry = \<lparr>morning = Some [], evening = Some [], is_complete = Some True,
                      points_awarded = Some 5, checker = None, checker_points_awarded = None\<rparr>"

definition hundred_days :: "date \<rightharpoonup> day_entry" where
  "hundred_days d = (if 900 \<le> d \<and> d < 1000 then Some complete_entry else None)"

definition two_days :: "date \<rightharpoonup> day_entry" where
  "two_days d = (if 998 \<le> d \<and> d < 1000 then Some complete_entry else None)"

text \<open>A stand-in digest for evaluating concrete registrations.\<close>

definition demo_sha256 :: "string \<Rightarrow> string" where
  "demo_sha256 s = rev s"

definition empty_state :: app_state where
  "empty_state = \<lparr>USERS = Map.empty, DATA = Map.empty, users_file = Map.empty,
                    data_file = Map.empty\<rparr>"

definition alice_registered :: app_state where
  "alice_registered = snd (register_form demo_sha256 ''5f2c'' empty_state ''alice'' ''secret'')"

definition none_ticked :: "nat \<Rightarrow> bool" where
  "none_ticked i = False"

definition all_ticked :: "nat \<Rightarrow> bool" where
  "all_ticked i = True"

text \<open>The analysis of \<open>demo_user\<close> with \<open>demo_lifestyle\<close> on the fallback path.\<close>

definition demo_analysis :: analysis where
  "demo_analysis =
     analysis_results (150, 1, 1) demo_lifestyle demo_onboarding
       (current_score_of (150, 1, 1) demo_lifestyle)
       (acne_risk_of (current_score_of (150, 1, 1) demo_lifestyle) (skin_type demo_onboarding)
          demo_lifestyle)"

definition routine_user :: user_data where
  "routine_user = demo_user\<lparr>analysis_history := [demo_analysis]\<rparr>"

definition routine_state :: app_state where
  "routine_state = \<lparr>USERS = Map.empty, DATA = Map.empty, users_file = Map.empty,
                      data_file = [''alice'' \<mapsto> routine_user]\<rparr>"

definition after_incomplete :: app_state where
  "after_incomplete = routine_finalize routine_state ''alice'' 1000 (none_ticked, none_ticked)"

definition after_complete :: app_state where
  "after_complete = routine_finalize after_incomplete ''alice'' 1000 (all_ticked, all_ticked)"

definition am_ticked :: "string \<Rightarrow> bool" where
  "am_ticked k = (k = ''AM_1'' \<or> k = ''AM_2'')"

definition pm_ticked :: "string \<Rightarrow> bool" where
  "pm_ticked k = (k = ''PM_1'')"

definition after_two_tasks :: app_state where
  "after_two_tasks = checker_finalize empty_state ''alice'' 1000 am_ticked"

definition after_first_checker :: app_state where
  "after_first_checker = checker_finalize after_incomplete ''alice'' 1000 am_ticked"

definition after_second_routine :: app_state where
  "after_second_routine = routine_finalize after_first_checker ''alice'' 1000 (all_ticked, all_ticked)"

definition after_second_checker :: app_state where
  "after_second_checker = checker_finalize after_second_routine ''alice'' 1000 am_ticked"

section \<open>Properties of the scoring engine\<close>

lemmas float_eval = fl_def rne_def Let_def halvings.simps doublings.simps
  fadd_def fsub_def fmul_def fdiv_def

lemma afe_Some:
  "onboarding ud = Some ob \<Longrightarrow>
   analysis_from_features f lf ud =
     Inr (analysis_results f lf ob (current_score_of f lf)
            (acne_risk_of (current_score_of f lf) (skin_type ob) lf))"
  by (simp add: analysis_from_features_def)

lemma ar_fields:
  "current_score (analysis_results f lf ob cur acne) = cur"
  "acne_risk_pct (analysis_results f lf ob cur acne) = acne"
  "hydration_score (analysis_results f lf ob cur acne) = hydration_score_of (fst f) lf"
  "pigmentation_risk_pct (analysis_results f lf ob cur acne) = pigmentation_risk_of (fst f) (fst (snd f)) lf"
  "routine_morning (analysis_results f lf ob cur acne) = morning_routine"
  "routine_evening (analysis_results f lf ob cur acne) = evening_routine_of (primary_concerns ob) acne"
  "future_score_proj_7 (analysis_results f lf ob cur acne) = proj_7 cur lf"
  "future_score_proj_30 (analysis_results f lf ob cur acne) = proj_30 cur lf"
  "future_score_proj_90 (analysis_results f lf ob cur acne) = proj_90 cur lf"
  "sleep_impact_pct (analysis_results f lf ob cur acne) = py_int (sleep_impact_raw lf)"
  "stress_impact_pct (analysis_results f lf ob cur acne) = py_int (stress_impact_raw lf)"
  "image_avg_brightness (analysis_results f lf ob cur acne) = fst f"
  "image_redness_factor (analysis_results f lf ob cur acne) = snd (snd f)"
  by (simp_all add: analysis_results_def split: prod.splits)

lemma demo_valid: "valid_lifestyle demo_lifestyle"
  by (simp add: valid_lifestyle_def demo_lifestyle_def)

lemma demo_onb: "onboarding demo_user = Some demo_onboarding"
  by (simp add: demo_user_def)

lemma fallback_features: "image_features None = (150, 1, 1)"
  by (simp add: image_features_def)

lemma grey_features: "image_features (Some (150, 150, 150)) = (150, 1, 1)"
  by (simp add: image_features_def float_eval)

text \<open>The floating-point values at the concrete inputs.\<close>

lemma fallback_base: "base_image_score 150 1 = 8477364004462111 / 36028797018963968"
  by (simp add: base_image_score_def float_eval)

lemma demo_li: "lifestyle_impact_score demo_lifestyle = 2206763817411543 / 4503599627370496"
  by (simp add: lifestyle_impact_score_def sleep_score_def water_score_def stress_score_def
      diet_score_def demo_lifestyle_def float_eval)

lemma demo_raw: "raw_score (image_features None) demo_lifestyle = 682783785417981 / 17592186044416"
  by (simp add: raw_score_def image_features_def fallback_base demo_li float_eval)

lemma rounding_hyd: "hydration_raw 150 rounding_lifestyle = 2411164322558193 / 35184372088832"
  by (simp add: hydration_raw_def water_score_def rounding_lifestyle_def float_eval)

lemma calm_stress: "stress_impact_raw calm_lifestyle = 5629499534213119 / 562949953421312"
  by (simp add: stress_impact_raw_def stress_score_def calm_lifestyle_def float_eval)

lemma rested_sleep: "sleep_impact_raw rested_lifestyle = 5629499534213119 / 281474976710656"
  by (simp add: sleep_impact_raw_def sleep_score_def rested_lifestyle_def float_eval)

lemma delta_li: "lifestyle_impact_score delta_lifestyle = 1463669878895411 / 2251799813685248"
  by (simp add: lifestyle_impact_score_def sleep_score_def water_score_def stress_score_def
      diet_score_def delta_lifestyle_def float_eval)

lemma delta_future: "future_raw delta_lifestyle = 1688849860263935 / 562949953421312"
  by (simp add: future_raw_def delta_li float_eval)

lemma delta_raw: "raw_score (image_features None) delta_lifestyle = 1703337542888749 / 35184372088832"
  by (simp add: raw_score_def image_features_def fallback_base delta_li float_eval)

text \<open>
  Where the rounding of the intermediate results shows: with stress level 1 the stress
  impact is 9 (the exact formula gives 10), with 9 hours of sleep the sleep impact is 19
  (exactly 20), and with 7 hours of sleep, 4.0 litres, stress 4 and diet 3 the future
  delta is 2 (exactly 3), so the projections from the score 50 are 50, 52 and 54.
\<close>

lemma float_examples:
  "py_int (stress_impact_raw calm_lifestyle) = 9"
  "py_int (sleep_impact_raw rested_lifestyle) = 19"
  "future_delta delta_lifestyle = 2"
  "current_score_of (image_features None) delta_lifestyle = 50"
  "proj_7 50 delta_lifestyle = 50" "proj_30 50 delta_lifestyle = 52" "proj_90 50 delta_lifestyle = 54"
proof -
  show "py_int (stress_impact_raw calm_lifestyle) = 9"
    by (simp add: calm_stress py_int_def)
  show "py_int (sleep_impact_raw rested_lifestyle) = 19"
    by (simp add: rested_sleep py_int_def)
  show d: "future_delta delta_lifestyle = 2"
    by (simp add: future_delta_def delta_future py_int_def)
  show "current_score_of (image_features None) delta_lifestyle = 50"
    by (simp add: current_score_of_def delta_raw py_int_def)
  show "proj_7 50 delta_lifestyle = 50" "proj_30 50 delta_lifestyle = 52"
    "proj_90 50 delta_lifestyle = 54"
    by (simp_all add: proj_7_def proj_30_def proj_90_def d)
qed

lemma py_int_truncation: "is_truncation x (py_int x)"
proof (cases "0 \<le> x")
  case True
  then show ?thesis
    using floor_correct [of x] by (simp add: is_truncation_def py_int_def)
next
  case False
  then show ?thesis
    using ceiling_correct [of x] by (simp add: is_truncation_def py_int_def)
qed

text \<open>
  C3. For lifestyle inputs in the documented ranges, every outcome of the image step
  (the fallback included) and every skin type, the analysis has \<open>current_score\<close> in
  \<open>[50,95]\<close>, \<open>hydration_score\<close> in \<open>[50,99]\<close>, \<open>acne_risk_pct\<close> in \<open>[10,90]\<close>
  and \<open>pigmentation_risk_pct\<close> in \<open>[5,70]\<close>.
\<close>

theorem analysis_bounds:
  assumes "valid_lifestyle lf" and "onboarding ud = Some ob"
  shows "\<exists>r. pseudo_analyze_image img lf ud = Inr r \<and>
     50 \<le> current_score r \<and> current_score r \<le> 95 \<and>
     50 \<le> hydration_score r \<and> hydration_score r \<le> 99 \<and>
     10 \<le> acne_risk_pct r \<and> acne_risk_pct r \<le> 90 \<and>
     5 \<le> pigmentation_risk_pct r \<and> pigmentation_risk_pct r \<le> 70"
  using assms(2)
  by (simp add: pseudo_analyze_image_def afe_Some ar_fields current_score_of_def
      hydration_score_of_def acne_risk_of_def pigmentation_risk_of_def)

theorem analysis_bounds_witness:
  "valid_lifestyle demo_lifestyle \<and> onboarding demo_user = Some demo_onboarding \<and>
   (\<exists>r. pseudo_analyze_image None demo_lifestyle demo_user = Inr r \<and>
     50 \<le> current_score r \<and> current_score r \<le> 95 \<and>
     50 \<le> hydration_score r \<and> hydration_score r \<le> 99 \<and>
     10 \<le> acne_risk_pct r \<and> acne_risk_pct r \<le> 90 \<and>
     5 \<le> pigmentation_risk_pct r \<and> pigmentation_risk_pct r \<le> 70)"
  using analysis_bounds [OF demo_valid demo_onb, of None] demo_valid demo_onb by simp

text \<open>
  C5 as stated (every integer field is its real-valued formula rounded to the nearest
  integer) fails. With 3.0 litres of water and the fallback image features the hydration
  formula is about 68.53: the code returns 68, rounding to nearest gives 69. With stress
  level 1 the stress-impact formula is exactly 10: the code returns 9.
\<close>

theorem nearest_rounding_counterexample:
  "map_sum id hydration_score (pseudo_analyze_image None rounding_lifestyle demo_user) = Inr 68
   \<and> max 50 (min 99 (round (spec_hydration_raw (150 / 255) rounding_lifestyle))) = 69
   \<and> map_sum id stress_impact_pct (pseudo_analyze_image None calm_lifestyle demo_user) = Inr 9
   \<and> round (spec_stress_impact_raw calm_lifestyle) = 10"
proof -
  have "hydration_score_of 150 rounding_lifestyle = 68"
    by (simp add: hydration_score_of_def rounding_hyd py_int_def)
  then have "map_sum id hydration_score (pseudo_analyze_image None rounding_lifestyle demo_user) = Inr 68"
    by (simp add: pseudo_analyze_image_def fallback_features afe_Some [OF demo_onb] ar_fields)
  moreover have "round (spec_hydration_raw (150 / 255) rounding_lifestyle) = 69"
    by (simp add: spec_hydration_raw_def rounding_lifestyle_def round_def)
  moreover have "map_sum id stress_impact_pct (pseudo_analyze_image None calm_lifestyle demo_user) = Inr 9"
    by (simp add: pseudo_analyze_image_def fallback_features afe_Some [OF demo_onb] ar_fields
        calm_stress py_int_def)
  moreover have "round (spec_stress_impact_raw calm_lifestyle) = 10"
    by (simp add: spec_stress_impact_raw_def calm_lifestyle_def round_def)
  ultimately show ?thesis by simp
qed

text \<open>
  C5, amended. Every integer field of the analysis is the floating-point value of its
  formula, as the code evaluates it, with the fractional part dropped (truncation towards
  zero), and the clamp is applied to the truncated value; the projections add \<open>max 0\<close>
  of the truncated \<open>future_delta\<close>, floor-divided by 3 for 7 days, as it is for 30 days
  and doubled for 90 days.
\<close>

theorem fields_truncated:
  assumes "onboarding ud = Some ob"
  shows "\<exists>r cs hy ac pg fd.
     pseudo_analyze_image img lf ud = Inr r \<and>
     is_truncation (raw_score (image_features img) lf) cs \<and>
     current_score r = max 50 (min 95 cs) \<and>
     is_truncation (hydration_raw (fst (image_features img)) lf) hy \<and>
     hydration_score r = max 50 (min 99 hy) \<and>
     is_truncation (acne_raw (current_score r) (skin_type ob) lf) ac \<and>
     acne_risk_pct r = min 90 (max 10 ac) \<and>
     is_truncation (pigmentation_raw (fst (image_features img)) (fst (snd (image_features img))) lf) pg \<and>
     pigmentation_risk_pct r = min 70 (max 5 pg) \<and>
     is_truncation (future_raw lf) fd \<and>
     future_score_proj_7 r = min 100 (current_score r + max 0 (fd div 3)) \<and>
     future_score_proj_30 r = min 100 (current_score r + max 0 fd) \<and>
     future_score_proj_90 r = min 100 (current_score r + max 0 (fd * 2)) \<and>
     is_truncation (sleep_impact_raw lf) (sleep_impact_pct r) \<and>
     is_truncation (stress_impact_raw lf) (stress_impact_pct r)"
proof -
  let ?f = "image_features img"
  let ?cur = "current_score_of ?f lf"
  let ?r = "analysis_results ?f lf ob ?cur (acne_risk_of ?cur (skin_type ob) lf)"
  have r: "pseudo_analyze_image img lf ud = Inr ?r"
    by (simp add: pseudo_analyze_image_def afe_Some [OF assms])
  show ?thesis
    apply (rule exI [of _ ?r])
    apply (rule exI [of _ "py_int (raw_score ?f lf)"])
    apply (rule exI [of _ "py_int (hydration_raw (fst ?f) lf)"])
    apply (rule exI [of _ "py_int (acne_raw ?cur (skin_type ob) lf)"])
    apply (rule exI [of _ "py_int (pigmentation_raw (fst ?f) (fst (snd ?f)) lf)"])
    apply (rule exI [of _ "future_delta lf"])
    using r
    apply (simp add: ar_fields current_score_of_def hydration_score_of_def acne_risk_of_def
        pigmentation_risk_of_def proj_7_def proj_30_def proj_90_def future_delta_def
        py_int_truncation)
    done
qed

theorem fields_truncated_witness:
  "onboarding demo_user = Some demo_onboarding \<and>
   (\<exists>r hy. pseudo_analyze_image None rounding_lifestyle demo_user = Inr r \<and>
      is_truncation (hydration_raw (fst (image_features None)) rounding_lifestyle) hy \<and>
      hydration_score r = max 50 (min 99 hy))"
  using fields_truncated [OF demo_onb, of None rounding_lifestyle] demo_onb by blast

text \<open>
  C6. With 7 hours of sleep, 2.0 litres of water, stress 5, diet 3 and the fallback image
  features (brightness 150 of 255, contrast 1.0, redness 1.0) the raw score is about 38.8
  and the returned \<open>current_score\<close> is exactly 50.
\<close>

theorem example_floor_clamp:
  assumes "onboarding ud = Some ob"
  shows "map_sum id current_score (pseudo_analyze_image None demo_lifestyle ud) = Inr 50
   \<and> \<bar>raw_score (image_features None) demo_lifestyle - 38.8\<bar> < 0.05
   \<and> sleep_hours demo_lifestyle = 7 \<and> water_intake demo_lifestyle = 2.0
   \<and> stress_level demo_lifestyle = 5 \<and> diet_quality demo_lifestyle = 3
   \<and> image_features None = (150, 1.0, 1.0)"
proof -
  have "py_int (raw_score (image_features None) demo_lifestyle) = 38"
    by (simp add: demo_raw py_int_def)
  then have "current_score_of (image_features None) demo_lifestyle = 50"
    by (simp add: current_score_of_def)
  then have "map_sum id current_score (pseudo_analyze_image None demo_lifestyle ud) = Inr 50"
    by (simp add: pseudo_analyze_image_def afe_Some [OF assms] ar_fields)
  moreover have "\<bar>raw_score (image_features None) demo_lifestyle - 38.8\<bar> < 0.05"
    by (simp add: demo_raw)
  moreover have "image_features None = (150, 1.0, 1.0)"
    by (simp add: image_features_def)
  ultimately show ?thesis
    by (simp add: demo_lifestyle_def)
qed

theorem example_floor_clamp_witness:
  "onboarding demo_user = Some demo_onboarding \<and>
   map_sum id current_score (pseudo_analyze_image None demo_lifestyle demo_user) = Inr 50"
  using example_floor_clamp [OF demo_onb] demo_onb by simp

text \<open>
  C7. The routine starts from three fixed morning steps and three fixed evening steps;
  the second evening step becomes the salicylic-acid (BHA) step exactly when Acne is a
  reported concern or \<open>acne_risk_pct > 50\<close>; a retinoid step is appended to the evening
  list exactly when Wrinkles is a reported concern; nothing else changes the lists.
\<close>

theorem routine_steps:
  assumes "onboarding ud = Some ob"
  shows "\<exists>r. pseudo_analyze_image img lf ud = Inr r
     \<and> routine_morning r = [''Cleanse: Gentle Hydrating Cleanser'', ''Treat: Vitamin C Serum'',
                             ''Protect: SPF 30+ Sunscreen'']
     \<and> routine_evening r =
         [''Cleanse: Double Cleanse (Oil + Foam)'',
          (if ''Acne'' \<in> set (primary_concerns ob) \<or> acne_risk_pct r > 50
           then ''Treat: Salicylic Acid (BHA) Serum'' else ''Treat: Niacinamide Serum''),
          ''Moisturize: Barrier Repair Cream'']
         @ (if ''Wrinkles'' \<in> set (primary_concerns ob)
            then [''Treat: Retinoid Cream (3x/week)''] else [])"
  by (simp add: pseudo_analyze_image_def afe_Some [OF assms] ar_fields morning_routine_def
      evening_routine_of_def)

theorem routine_steps_witness:
  "onboarding demo_user = Some demo_onboarding \<and>
   (\<exists>r. pseudo_analyze_image None demo_lifestyle demo_user = Inr r
     \<and> length (routine_morning r) = 3 \<and> length (routine_evening r) = 4)"
  using routine_steps [OF demo_onb, of None demo_lifestyle]
  by (auto simp: demo_onb demo_onboarding_def)

text \<open>
  C9. When the image step raises, the error is not propagated: the features are
  brightness 150 (of 255), contrast 1.0 and redness 1.0, and the analysis is the one
  computed from these values and the given lifestyle inputs; it is the analysis of an
  image whose three channel means are 150, and it is complete whenever the profile is.
\<close>

theorem decode_failure_fallback:
  "pseudo_analyze_image None lf ud = analysis_from_features (150, 1, 1) lf ud
   \<and> pseudo_analyze_image None lf ud = pseudo_analyze_image (Some (150, 150, 150)) lf ud
   \<and> (onboarding ud \<noteq> None \<longrightarrow>
        (\<exists>r. pseudo_analyze_image None lf ud = Inr r
          \<and> image_avg_brightness r = 150 \<and> image_redness_factor r = 1
          \<and> lifestyle_factors r = lf))"
  apply (simp add: pseudo_analyze_image_def fallback_features grey_features)
  apply (auto simp: afe_Some ar_fields analysis_results_def)
  done

theorem decode_failure_fallback_witness:
  "onboarding demo_user \<noteq> None \<and>
   (\<exists>r. pseudo_analyze_image None demo_lifestyle demo_user = Inr r
      \<and> image_avg_brightness r = 150 \<and> image_redness_factor r = 1)"
proof -
  have h: "onboarding demo_user \<noteq> None"
    by (simp add: demo_onb)
  with decode_failure_fallback [of demo_lifestyle demo_user]
  have "\<exists>r. pseudo_analyze_image None demo_lifestyle demo_user = Inr r
          \<and> image_avg_brightness r = 150 \<and> image_redness_factor r = 1
          \<and> lifestyle_factors r = demo_lifestyle"
    by blast
  with h show ?thesis by blast
qed

section \<open>Properties of the streak\<close>

lemma streak_loop_all:
  "list_all (\<lambda>i. entry_is_complete (dc (today - int i))) js \<Longrightarrow>
   streak_loop dc today js c = c + length js"
  by (induction js arbitrary: c) auto

lemma streak_loop_stop:
  "list_all (\<lambda>i. entry_is_complete (dc (today - int i))) pre \<Longrightarrow>
   \<not> entry_is_complete (dc (today - int j)) \<Longrightarrow>
   streak_loop dc today (pre @ j # rest) c = c + length pre"
  by (induction pre arbitrary: c) auto

lemma range_split: "n < 99 \<Longrightarrow> [1..<100] = [1..<Suc n] @ Suc n # [Suc (Suc n)..<100]"
proof -
  assume n: "n < 99"
  then have "[1..<Suc n + (99 - n)] = [1..<Suc n] @ [Suc n..<Suc n + (99 - n)]"
    by (intro upt_add_eq_append) simp
  with n have "[1..<100] = [1..<Suc n] @ [Suc n..<100]"
    by simp
  moreover from n have "[Suc n..<100] = Suc n # [Suc (Suc n)..<100]"
    by (simp add: upt_conv_Cons)
  ultimately show ?thesis by simp
qed

lemma entry_is_complete_None [simp]: "\<not> entry_is_complete None"
  by (simp add: entry_is_complete_def)

lemma list_all_first:
  assumes "list_all P [1..<Suc n]" and "n \<noteq> 0"
  shows "P 1"
proof -
  from assms(2) have "(1::nat) \<in> set [1..<Suc n]" by auto
  with assms(1) show ?thesis unfolding list_all_iff by blast
qed

lemma streak_run:
  assumes "complete_run dc today n" and "n \<le> 99"
  shows "streak dc today = n"
proof (cases "n = 0")
  case True
  with assms show ?thesis by (simp add: streak_def complete_run_def)
next
  case False
  from assms(1) have all: "list_all (\<lambda>i. entry_is_complete (dc (today - int i))) [1..<Suc n]"
    and stop: "\<not> entry_is_complete (dc (today - int (Suc n)))"
    by (simp_all add: complete_run_def)
  from list_all_first [OF all False] have y: "entry_is_complete (dc (today - 1))"
    by simp
  show ?thesis
  proof (cases "n = 99")
    case True
    with all have "streak_loop dc today [1..<100] 0 = 99"
      using streak_loop_all [of dc today "[1..<100]" 0] by simp
    with y True show ?thesis by (simp add: streak_def)
  next
    case False
    with assms(2) have "n < 99" by simp
    then have "streak_loop dc today [1..<100] 0 = n"
      using streak_loop_stop [OF all stop, of "[Suc (Suc n)..<100]" 0] range_split [of n] by simp
    with y show ?thesis by (simp add: streak_def)
  qed
qed

lemma streak_full:
  assumes "list_all (\<lambda>i. entry_is_complete (dc (today - int i))) [1..<100]"
  shows "streak dc today = 99"
proof -
  from assms have "list_all (\<lambda>i. entry_is_complete (dc (today - int i))) [1..<Suc 99]"
    by simp
  from list_all_first [OF this] have "entry_is_complete (dc (today - 1))"
    by simp
  then show ?thesis
    using streak_loop_all [OF assms, of 0] by (simp add: streak_def)
qed

lemma complete_entry_complete: "entry_is_complete (Some complete_entry)"
  by (simp add: entry_is_complete_def complete_entry_def)

lemma hundred_run: "complete_run hundred_days 1000 100"
  by (auto simp: complete_run_def hundred_days_def list_all_iff complete_entry_complete)

text \<open>
  C4 as stated (the streak equals N for every N \<ge> 1) fails at N = 100: the walk looks at
  the 99 days \<open>range(1, 100)\<close> only. With exactly the 100 days before day 1000 complete
  the streak read on day 1000 is 99.
\<close>

theorem streak_cap_counterexample:
  "complete_run hundred_days 1000 100 \<and> streak hundred_days 1000 = 99"
proof -
  have "list_all (\<lambda>i. entry_is_complete (hundred_days (1000 - int i))) [1..<100]"
    by (auto simp: hundred_days_def list_all_iff complete_entry_complete)
  then show ?thesis
    using streak_full hundred_run by blast
qed

text \<open>
  C4, amended. A user with no completion history has streak 0; for every N from 0 to 99,
  if the N days ending yesterday are complete and the day before them is not, the streak
  read today is N, whatever the earlier days hold: the first incomplete day stops the
  backward walk.
\<close>

theorem streak_consecutive:
  "streak (daily_completion new_user_data) today = 0
   \<and> (complete_run dc today n \<and> n \<le> 99 \<longrightarrow> streak dc today = n)"
proof -
  have "streak (daily_completion new_user_data) today = 0"
    by (simp add: streak_def new_user_data_def)
  then show ?thesis
    by (simp add: streak_run)
qed

lemma two_run: "complete_run two_days 1000 2"
  by (auto simp: complete_run_def two_days_def list_all_iff complete_entry_complete)

theorem streak_consecutive_witness:
  "complete_run two_days 1000 2 \<and> (2::nat) \<le> 99 \<and> streak two_days 1000 = 2"
  using streak_consecutive [of 1000 two_days 2] two_run by simp

section \<open>Properties of registration and login\<close>

lemma register_fresh:
  assumes "new_username \<notin> dom (USERS st)" and "new_username \<noteq> []" and "new_password \<noteq> []"
  shows "fst (register_form sha256 uuid st new_username new_password) = reg_success"
    and "USERS (snd (register_form sha256 uuid st new_username new_password)) =
           (USERS st)(new_username \<mapsto> \<lparr>password = sha256 (new_password @ uuid), salt = uuid\<rparr>)"
    and "users_file (snd (register_form sha256 uuid st new_username new_password)) =
           (USERS st)(new_username \<mapsto> \<lparr>password = sha256 (new_password @ uuid), salt = uuid\<rparr>)"
  using assms
  by (auto simp: register_form_def hash_password_def Let_def get_user_data_def save_USERS_def
      save_DATA_def set_user_def split: option.splits)

lemma alice_fresh: "''alice'' \<notin> dom (USERS empty_state)"
  by (simp add: empty_state_def)

lemma alice_taken: "''alice'' \<in> dom (USERS alice_registered)"
  using register_fresh(2) [OF alice_fresh, of "''secret''" demo_sha256 "''5f2c''"]
  by (simp add: alice_registered_def)

text \<open>
  C8. A registration with a user name that already has a credential record fails with
  the duplicate-user-name message and changes nothing: neither dictionary and neither
  file. A registration with a fresh user name and non-empty fields stores the salted
  digest and the salt, in memory and in the file, and a login with the same password
  then succeeds, in the same run and after a reload.
\<close>

theorem register_duplicate_or_fresh:
  "(new_username \<in> dom (USERS st) \<longrightarrow>
      register_form sha256 uuid st new_username new_password = (user_exists, st))
   \<and> (new_username \<notin> dom (USERS st) \<and> new_username \<noteq> [] \<and> new_password \<noteq> [] \<longrightarrow>
        fst (register_form sha256 uuid st new_username new_password) = reg_success
        \<and> USERS (snd (register_form sha256 uuid st new_username new_password)) new_username =
             Some \<lparr>password = sha256 (new_password @ uuid), salt = uuid\<rparr>
        \<and> users_file (snd (register_form sha256 uuid st new_username new_password)) new_username =
             Some \<lparr>password = sha256 (new_password @ uuid), salt = uuid\<rparr>
        \<and> login_form sha256 (snd (register_form sha256 uuid st new_username new_password))
             new_username new_password = login_success
        \<and> login_form sha256 (script_start (snd (register_form sha256 uuid st new_username new_password)))
             new_username new_password = login_success)"
proof (intro conjI impI)
  assume "new_username \<in> dom (USERS st)"
  then show "register_form sha256 uuid st new_username new_password = (user_exists, st)"
    by (simp add: register_form_def)
next
  assume a: "new_username \<notin> dom (USERS st) \<and> new_username \<noteq> [] \<and> new_password \<noteq> []"
  then have f: "new_username \<notin> dom (USERS st)" "new_username \<noteq> []" "new_password \<noteq> []"
    by simp_all
  note r = register_fresh [OF f, of sha256 uuid]
  show "fst (register_form sha256 uuid st new_username new_password) = reg_success"
    by (rule r(1))
  show "USERS (snd (register_form sha256 uuid st new_username new_password)) new_username =
             Some \<lparr>password = sha256 (new_password @ uuid), salt = uuid\<rparr>"
    by (simp add: r(2))
  show "users_file (snd (register_form sha256 uuid st new_username new_password)) new_username =
             Some \<lparr>password = sha256 (new_password @ uuid), salt = uuid\<rparr>"
    by (simp add: r(3))
  show "login_form sha256 (snd (register_form sha256 uuid st new_username new_password))
             new_username new_password = login_success"
    by (simp add: login_form_def r(2) check_password_def)
  show "login_form sha256 (script_start (snd (register_form sha256 uuid st new_username new_password)))
             new_username new_password = login_success"
    by (simp add: login_form_def script_start_def r(3) check_password_def)
qed

theorem register_duplicate_or_fresh_witness:
  "''alice'' \<in> dom (USERS alice_registered)
   \<and> register_form demo_sha256 ''77aa'' alice_registered ''alice'' ''other'' = (user_exists, alice_registered)
   \<and> ''alice'' \<notin> dom (USERS empty_state) \<and> ''alice'' \<noteq> [] \<and> ''secret'' \<noteq> []
   \<and> login_form demo_sha256 alice_registered ''alice'' ''secret'' = login_success"
  using register_duplicate_or_fresh [of "''alice''" alice_registered demo_sha256 "''77aa''" "''other''"]
    register_duplicate_or_fresh [of "''alice''" empty_state demo_sha256 "''5f2c''" "''secret''"]
    alice_taken alice_fresh
  by (simp add: alice_registered_def)

text \<open>
  C10. A registration with an empty user name or an empty password fails with an error
  message and changes nothing, in memory or in the files; when the user name is not
  taken the message is the one for empty fields.
\<close>

theorem register_empty_fields:
  assumes "new_username = [] \<or> new_password = []"
  shows "snd (register_form sha256 uuid st new_username new_password) = st
       \<and> fst (register_form sha256 uuid st new_username new_password) \<in> {user_exists, empty_fields}
       \<and> (new_username \<notin> dom (USERS st) \<longrightarrow>
            fst (register_form sha256 uuid st new_username new_password) = empty_fields)"
  using assms by (auto simp: register_form_def)

theorem register_empty_fields_witness:
  "(''bob'' = [] \<or> ([]::string) = []) \<and> ''bob'' \<notin> dom (USERS empty_state)
   \<and> register_form demo_sha256 ''5f2c'' empty_state ''bob'' [] = (empty_fields, empty_state)"
proof -
  have h: "''bob'' = [] \<or> ([]::string) = []" by simp
  have n: "''bob'' \<notin> dom (USERS empty_state)" by (simp add: empty_state_def)
  from register_empty_fields [OF h, of demo_sha256 "''5f2c''" empty_state] n
  have "snd (register_form demo_sha256 ''5f2c'' empty_state ''bob'' []) = empty_state"
    and "fst (register_form demo_sha256 ''5f2c'' empty_state ''bob'' []) = empty_fields"
    by simp_all
  then have "register_form demo_sha256 ''5f2c'' empty_state ''bob'' [] = (empty_fields, empty_state)"
    by (simp add: prod_eq_iff)
  with h n show ?thesis by simp
qed

section \<open>Properties of routine finalization\<close>

lemma gud_loaded:
  "data_file st username = Some u0 \<Longrightarrow>
   get_user_data (script_start st) username = (u0, script_start st)"
  by (simp add: get_user_data_def script_start_def)

lemma gud_missing:
  "data_file st username = None \<Longrightarrow>
   get_user_data (script_start st) username =
     (new_user_data, save_DATA (set_user (script_start st) username new_user_data))"
  by (simp add: get_user_data_def script_start_def)

lemma files_set_user [simp]:
  "data_file (set_user st username u) = data_file st"
  "users_file (set_user st username u) = users_file st"
  by (simp_all add: set_user_def)

lemma files_script_start [simp]:
  "data_file (script_start st) = data_file st"
  "users_file (script_start st) = users_file st"
  by (simp_all add: script_start_def)

lemma finalize_routine_complete:
  "entry_is_complete (daily_completion u today) \<Longrightarrow>
   finalize_routine st username u today dc b = (None, st)"
  by (simp add: finalize_routine_def)

lemma complete_D:
  assumes "entry_is_complete (daily_completion u0 today)"
  obtains e where "daily_completion u0 today = Some e" "is_complete e = Some True"
  using assms by (auto simp: entry_is_complete_def split: option.splits)

text \<open>
  What a finalize does on a date that is not yet recorded as complete, for a user whose
  last analysis has a morning and an evening step and whose entry for the date, if any,
  has both step dictionaries.
\<close>

lemma routine_finalize_open:
  fixes mt et :: "nat \<Rightarrow> bool"
  assumes u0: "data_file st username = Some u0"
    and hist: "analysis_history u0 \<noteq> []"
    and tm: "routine_morning (last (analysis_history u0)) \<noteq> []"
    and te: "routine_evening (last (analysis_history u0)) \<noteq> []"
    and entry: "daily_completion u0 today = None \<or>
                (\<exists>e m ev. daily_completion u0 today = Some e \<and> morning e = Some m \<and>
                   evening e = Some ev \<and> \<not> entry_is_complete (Some e))"
  defines "b \<equiv> count_ticked (length (routine_morning (last (analysis_history u0)))) mt
                + count_ticked (length (routine_evening (last (analysis_history u0)))) et
              = length (routine_morning (last (analysis_history u0)))
                + length (routine_evening (last (analysis_history u0)))"
  shows "data_file (routine_finalize st username today (mt, et)) username =
           Some (u0\<lparr>daily_completion := (daily_completion u0)(today \<mapsto>
                        \<lparr>morning = Some (tick_steps (stored_steps morning (daily_completion u0 today))
                                           (length (routine_morning (last (analysis_history u0)))) mt),
                          evening = Some (tick_steps (stored_steps evening (daily_completion u0 today))
                                           (length (routine_evening (last (analysis_history u0)))) et),
                          is_complete = Some b,
                          points_awarded = Some (if b then 5 else 0),
                          checker = None, checker_points_awarded = None\<rparr>),
                     points := (if b then Some (get_points u0 + 5) else points u0)\<rparr>)"
  using entry
proof
  assume n: "daily_completion u0 today = None"
  show ?thesis
    using u0 hist tm te n
    by (simp add: routine_finalize_def my_routine_page_def gud_loaded Let_def write_through_def
        finalize_routine_def entry_is_complete_def update_user_points_def set_user_def
        save_DATA_def stored_steps_def get_points_def b_def)
next
  assume "\<exists>e m ev. daily_completion u0 today = Some e \<and> morning e = Some m \<and>
                   evening e = Some ev \<and> \<not> entry_is_complete (Some e)"
  then obtain e m ev where e: "daily_completion u0 today = Some e" "morning e = Some m"
    "evening e = Some ev" "\<not> entry_is_complete (Some e)"
    by blast
  from e(4) have ic: "is_complete e = None \<or> is_complete e = Some False"
    by (auto simp: entry_is_complete_def split: option.splits)
  show ?thesis
    using u0 hist tm te e(1,2,3) ic
    by (auto simp: routine_finalize_def my_routine_page_def gud_loaded Let_def write_through_def
        finalize_routine_def entry_is_complete_def update_user_points_def set_user_def
        save_DATA_def stored_steps_def get_points_def b_def)
qed

lemma count_ticked_all: "count_ticked n all_ticked = n"
proof -
  have "filter all_ticked [0..<n] = [0..<n]"
    by (simp add: all_ticked_def)
  then show ?thesis by (simp add: count_ticked_def)
qed

lemma count_ticked_none: "count_ticked n none_ticked = 0"
proof -
  have "filter none_ticked [0..<n] = []"
    by (simp add: none_ticked_def)
  then show ?thesis by (simp add: count_ticked_def)
qed

lemma demo_analysis_result:
  "pseudo_analyze_image None demo_lifestyle demo_user = Inr demo_analysis"
  by (simp add: pseudo_analyze_image_def image_features_def afe_Some [OF demo_onb] demo_analysis_def)

lemma demo_analysis_routine:
  "length (routine_morning demo_analysis) = 3" "length (routine_evening demo_analysis) = 4"
  by (simp_all add: demo_analysis_def ar_fields morning_routine_def evening_routine_of_def
      demo_onboarding_def Let_def)

lemma after_incomplete_file:
  "data_file after_incomplete ''alice'' =
     Some (routine_user\<lparr>daily_completion := [1000 \<mapsto>
             \<lparr>morning = Some (tick_steps [] 3 none_ticked),
               evening = Some (tick_steps [] 4 none_ticked), is_complete = Some False,
               points_awarded = Some 0, checker = None, checker_points_awarded = None\<rparr>],
             points := Some 0\<rparr>)"
proof -
  have u: "data_file routine_state ''alice'' = Some routine_user"
    by (simp add: routine_state_def)
  have h: "analysis_history routine_user = [demo_analysis]"
    "daily_completion routine_user = Map.empty" "points routine_user = Some 0"
    by (simp_all add: routine_user_def demo_user_def)
  have l: "routine_morning demo_analysis \<noteq> []" "routine_evening demo_analysis \<noteq> []"
    using demo_analysis_routine by auto
  from routine_finalize_open [OF u, of 1000 none_ticked none_ticked] h l
  show ?thesis
    by (simp add: after_incomplete_def count_ticked_none demo_analysis_routine stored_steps_def)
qed

lemma after_complete_file:
  "data_file after_complete ''alice'' =
     Some (routine_user\<lparr>daily_completion := [1000 \<mapsto>
             \<lparr>morning = Some (tick_steps (tick_steps [] 3 none_ticked) 3 all_ticked),
               evening = Some (tick_steps (tick_steps [] 4 none_ticked) 4 all_ticked),
               is_complete = Some True,
               points_awarded = Some 5, checker = None, checker_points_awarded = None\<rparr>],
             points := Some 5\<rparr>)"
proof -
  have h: "analysis_history routine_user = [demo_analysis]"
    by (simp add: routine_user_def demo_user_def)
  have l: "routine_morning demo_analysis \<noteq> []" "routine_evening demo_analysis \<noteq> []"
    using demo_analysis_routine by auto
  from routine_finalize_open [OF after_incomplete_file, of 1000 all_ticked all_ticked] h l
  show ?thesis
    by (simp add: after_complete_def count_ticked_all demo_analysis_routine stored_steps_def
        entry_is_complete_def get_points_def)
qed

text \<open>
  C1 as stated (a second finalize never changes \<open>points_awarded\<close> or the points, in
  particular not after a first finalize with an incomplete routine) fails: after a
  finalize with no step ticked (award 0, points 0), a finalize with every step ticked on
  the same date records award 5 and raises the points to 5.
\<close>

theorem refinalize_counterexample:
  "map_option points_awarded (stored_entry after_incomplete ''alice'' 1000) = Some (Some 0)
   \<and> stored_points after_incomplete ''alice'' = 0
   \<and> map_option points_awarded (stored_entry after_complete ''alice'' 1000) = Some (Some 5)
   \<and> stored_points after_complete ''alice'' = 5"
  by (simp add: stored_entry_def stored_points_def after_incomplete_file after_complete_file
      get_points_def)

text \<open>
  C1, amended. Once the routine of a date is recorded as complete (\<open>is_complete\<close>
  true), running the page for that date with the finalize button pressed, whatever the
  checkbox states are, writes nothing to the files and leaves the user's points and the
  date's \<open>points_awarded\<close> as they are. (A run after a reload is the case where the
  state is \<open>script_start\<close> of the stored one.)
\<close>

theorem refinalize_complete_noop:
  assumes "DATA st username = Some u0" and "entry_is_complete (daily_completion u0 today)"
  shows "data_file (snd (my_routine_page st username today mt et button)) = data_file st
       \<and> users_file (snd (my_routine_page st username today mt et button)) = users_file st
       \<and> (\<exists>u1. DATA (snd (my_routine_page st username today mt et button)) username = Some u1
             \<and> points u1 = points u0
             \<and> map_option points_awarded (daily_completion u1 today)
                 = map_option points_awarded (daily_completion u0 today)
             \<and> entry_is_complete (daily_completion u1 today))"
proof -
  from assms(2) obtain e where e: "daily_completion u0 today = Some e" "is_complete e = Some True"
    by (rule complete_D)
  have g: "get_user_data st username = (u0, st)"
    using assms(1) by (simp add: get_user_data_def)
  show ?thesis
    using assms(1) e
    by (auto simp: my_routine_page_def g Let_def write_through_def set_user_def
        finalize_routine_complete entry_is_complete_def split: option.splits)
qed

theorem refinalize_complete_noop_witness:
  "DATA (script_start after_complete) ''alice'' = data_file after_complete ''alice''
   \<and> entry_is_complete (stored_entry after_complete ''alice'' 1000)
   \<and> data_file (routine_finalize after_complete ''alice'' 1000 (none_ticked, none_ticked))
       = data_file after_complete
   \<and> stored_points (routine_finalize after_complete ''alice'' 1000 (none_ticked, none_ticked)) ''alice''
       = 5"
proof -
  let ?u = "routine_user\<lparr>daily_completion := [1000 \<mapsto>
             \<lparr>morning = Some (tick_steps (tick_steps [] 3 none_ticked) 3 all_ticked),
               evening = Some (tick_steps (tick_steps [] 4 none_ticked) 4 all_ticked),
               is_complete = Some True,
               points_awarded = Some 5, checker = None, checker_points_awarded = None\<rparr>],
             points := Some 5\<rparr>"
  have d: "DATA (script_start after_complete) ''alice'' = Some ?u"
    by (simp add: script_start_def after_complete_file)
  have c: "entry_is_complete (daily_completion ?u 1000)"
    by (simp add: entry_is_complete_def)
  have p: "stored_points after_complete ''alice'' = 5"
    by (simp add: stored_points_def after_complete_file get_points_def)
  from refinalize_complete_noop [OF d c, of none_ticked none_ticked True] d c p
  show ?thesis
    by (simp add: routine_finalize_def stored_points_def stored_entry_def after_complete_file
        script_start_def)
qed

section \<open>Properties of the daily checker\<close>

lemma observed_count_checker:
  "observed_count st username today ticked = completed_tasks (observed_checker st username today ticked)"
  by (simp add: observed_count_def observed_checker_def split: prod.splits)

lemma observed_count_nonneg: "0 \<le> observed_count st username today ticked"
  by (simp add: observed_count_checker completed_tasks_def)

lemma map_of_foldl_update:
  "map_of (foldl (\<lambda>acc k. AList.update k (t k) acc) d ks) k' =
     (if k' \<in> set ks then Some (t k') else map_of d k')"
  by (induction ks arbitrary: d) (auto simp: update_conv')

lemma tick_tasks_lookup:
  "k \<in> set tasks \<Longrightarrow> map_of (tick_tasks d t) k = Some (t k)"
  by (simp add: tick_tasks_def map_of_foldl_update)

lemma checker_effect_missing:
  assumes "data_file st username = None"
  shows "stored_points (checker_finalize st username today t) username
           = stored_points st username
             + max 0 (5 * observed_count st username today t - stored_checker_award st username today)"
    and "stored_checker_award (checker_finalize st username today t) username today
           = max (stored_checker_award st username today) (5 * observed_count st username today t)"
  using assms
  by (auto simp: checker_finalize_def observed_count_def daily_routine_ai_checker_page_def
      gud_missing checker_view_def Let_def write_through_def new_user_data_def
      update_user_points_def set_user_def save_DATA_def stored_points_def stored_entry_def
      stored_checker_award_def get_checker_points_awarded_def get_points_def completed_tasks_def)

lemma checker_effect_loaded:
  assumes "data_file st username = Some u0"
  shows "stored_points (checker_finalize st username today t) username
           = stored_points st username
             + max 0 (5 * observed_count st username today t - stored_checker_award st username today)"
    and "stored_checker_award (checker_finalize st username today t) username today
           = max (stored_checker_award st username today) (5 * observed_count st username today t)"
  using assms
  by (auto simp: checker_finalize_def observed_count_def daily_routine_ai_checker_page_def
      gud_loaded checker_view_def Let_def write_through_def
      update_user_points_def set_user_def save_DATA_def stored_points_def stored_entry_def
      stored_checker_award_def get_checker_points_awarded_def get_points_def completed_tasks_def
      split: option.splits)

lemma checker_effect:
  "stored_points (checker_finalize st username today t) username
     = stored_points st username
       + max 0 (5 * observed_count st username today t - stored_checker_award st username today)"
  "stored_checker_award (checker_finalize st username today t) username today
     = max (stored_checker_award st username today) (5 * observed_count st username today t)"
  using checker_effect_missing [of st username today t] checker_effect_loaded [of st username _ today t]
  by (cases "data_file st username"; simp)+

lemma checker_finalizes_award:
  "stored_checker_award (checker_finalizes st username today ts) username today
     = fold (\<lambda>c a. max a (5 * c)) (observed_counts st username today ts)
         (stored_checker_award st username today)"
  by (induction ts arbitrary: st) (simp_all add: checker_effect(2))

lemma checker_finalizes_points:
  "stored_points (checker_finalizes st username today ts) username - stored_points st username
     = stored_checker_award (checker_finalizes st username today ts) username today
       - stored_checker_award st username today"
proof (induction ts arbitrary: st)
  case Nil
  show ?case by simp
next
  case (Cons t ts)
  from Cons.IH [of "checker_finalize st username today t"]
  show ?case
    by (simp add: checker_effect)
qed

lemma fold_high_water:
  "cs \<noteq> [] \<Longrightarrow> fold (\<lambda>c a. max a (5 * c)) cs (a::int) = max a (5 * Max (set cs))"
proof (induction cs arbitrary: a)
  case Nil
  then show ?case by simp
next
  case (Cons c cs)
  show ?case
  proof (cases "cs = []")
    case True
    then show ?thesis by simp
  next
    case False
    with Cons.IH [of "max a (5 * c)"] show ?thesis
      by (simp add: max.assoc)
  qed
qed

lemma observed_counts_nonneg:
  "c \<in> set (observed_counts st username today ts) \<Longrightarrow> 0 \<le> c"
  by (induction ts arbitrary: st) (auto simp: observed_count_nonneg)

lemma observed_counts_empty [simp]:
  "observed_counts st username today ts = [] \<longleftrightarrow> ts = []"
  by (cases ts) simp_all

lemma checker_drop_persisted:
  assumes "5 * observed_count st username today t < stored_checker_award st username today"
  shows "map_option checker (stored_entry (checker_finalize st username today t) username today)
           = Some (Some (observed_checker st username today t))"
proof -
  from assms observed_count_nonneg [of st username today t]
  have "stored_checker_award st username today \<noteq> 0" by linarith
  then obtain u0 e where u0: "data_file st username = Some u0"
    and e: "daily_completion u0 today = Some e"
    by (auto simp: stored_checker_award_def stored_entry_def get_checker_points_awarded_def
        split: option.splits)
  from assms u0 e show ?thesis
    by (auto simp: checker_finalize_def observed_count_def observed_checker_def
        daily_routine_ai_checker_page_def
        gud_loaded checker_view_def Let_def write_through_def
        set_user_def save_DATA_def stored_entry_def
        stored_checker_award_def get_checker_points_awarded_def completed_tasks_def
        split: option.splits)
qed

text \<open>
  Without a routine finalize in between, the checker pays by the high-water mark: over
  any non-empty sequence of checker finalizes on a date that starts with no checker
  award, the points granted are 5 times the largest task count that a finalize of the
  sequence observed. In every state, a finalize that observes fewer tasks than were
  already awarded stores the reduced task state and leaves both the user's points and
  the stored \<open>checker_points_awarded\<close> of the date as they are.
\<close>

theorem checker_high_water_mark:
  "(ts \<noteq> [] \<and> stored_checker_award st username today = 0 \<longrightarrow>
      stored_points (checker_finalizes st username today ts) username - stored_points st username
        = 5 * Max (set (observed_counts st username today ts)))
   \<and> (5 * observed_count st' username today t < stored_checker_award st' username today \<longrightarrow>
        stored_points (checker_finalize st' username today t) username = stored_points st' username
        \<and> stored_checker_award (checker_finalize st' username today t) username today
            = stored_checker_award st' username today
        \<and> map_option checker (stored_entry (checker_finalize st' username today t) username today)
            = Some (Some (observed_checker st' username today t))
        \<and> completed_tasks (observed_checker st' username today t) = observed_count st' username today t
        \<and> map (map_of (observed_checker st' username today t)) tasks = map (Some \<circ> t) tasks)"
proof (intro conjI impI)
  assume a: "ts \<noteq> [] \<and> stored_checker_award st username today = 0"
  let ?cs = "observed_counts st username today ts"
  from a have ne: "?cs \<noteq> []" by simp
  then have "Max (set ?cs) \<in> set ?cs" by simp
  then have "0 \<le> Max (set ?cs)" by (rule observed_counts_nonneg)
  with a fold_high_water [OF ne, of 0]
  show "stored_points (checker_finalizes st username today ts) username - stored_points st username
        = 5 * Max (set ?cs)"
    by (simp add: checker_finalizes_points checker_finalizes_award)
next
  assume d: "5 * observed_count st' username today t < stored_checker_award st' username today"
  then show "stored_points (checker_finalize st' username today t) username = stored_points st' username"
    by (simp add: checker_effect)
  from d show "stored_checker_award (checker_finalize st' username today t) username today
            = stored_checker_award st' username today"
    by (simp add: checker_effect)
  from d show "map_option checker (stored_entry (checker_finalize st' username today t) username today)
            = Some (Some (observed_checker st' username today t))"
    by (rule checker_drop_persisted)
  show "completed_tasks (observed_checker st' username today t) = observed_count st' username today t"
    by (simp add: observed_count_checker)
  show "map (map_of (observed_checker st' username today t)) tasks = map (Some \<circ> t) tasks"
    by (simp add: observed_checker_def checker_view_def Let_def tick_tasks_lookup split: prod.splits)
qed

lemma tick_am: "tick_tasks [] am_ticked =
  [(''AM_1'', True), (''AM_2'', True), (''AM_3'', False), (''AM_4'', False), (''AM_5'', False),
   (''PM_1'', False), (''PM_2'', False), (''PM_3'', False), (''PM_4'', False), (''PM_5'', False),
   (''LIFE_1'', False), (''LIFE_2'', False), (''LIFE_3'', False), (''LIFE_4'', False),
   (''LIFE_5'', False)]"
  by (simp add: tick_tasks_def tasks_def am_ticked_def)

lemma tick_pm: "tick_tasks (tick_tasks [] am_ticked) pm_ticked =
  [(''AM_1'', False), (''AM_2'', False), (''AM_3'', False), (''AM_4'', False), (''AM_5'', False),
   (''PM_1'', True), (''PM_2'', False), (''PM_3'', False), (''PM_4'', False), (''PM_5'', False),
   (''LIFE_1'', False), (''LIFE_2'', False), (''LIFE_3'', False), (''LIFE_4'', False),
   (''LIFE_5'', False)]"
  unfolding tick_am by (simp add: tick_tasks_def tasks_def pm_ticked_def)

lemma empty_state_missing: "data_file empty_state ''alice'' = None"
  by (simp add: empty_state_def)

lemma after_two_tasks_file:
  "data_file after_two_tasks ''alice'' =
     Some (new_user_data\<lparr>points := Some 10,
             daily_completion := [1000 \<mapsto>
               \<lparr>morning = None, evening = None, is_complete = None, points_awarded = None,
                 checker = Some (tick_tasks [] am_ticked), checker_points_awarded = Some 10\<rparr>]\<rparr>)"
proof -
  have "completed_tasks (tick_tasks [] am_ticked) = 2"
    by (simp add: tick_am completed_tasks_def)
  then show ?thesis
    by (simp add: after_two_tasks_def checker_finalize_def daily_routine_ai_checker_page_def
        gud_missing [OF empty_state_missing] checker_view_def Let_def write_through_def
        new_user_data_def update_user_points_def set_user_def save_DATA_def get_points_def
        get_checker_points_awarded_def)
qed

lemma after_two_tasks_observed:
  "observed_count after_two_tasks ''alice'' 1000 pm_ticked = 1"
  "stored_checker_award after_two_tasks ''alice'' 1000 = 10"
proof -
  have "completed_tasks (tick_tasks (tick_tasks [] am_ticked) pm_ticked) = 1"
    by (simp add: tick_pm completed_tasks_def)
  then show "observed_count after_two_tasks ''alice'' 1000 pm_ticked = 1"
    by (simp add: observed_count_def gud_loaded [OF after_two_tasks_file] checker_view_def Let_def)
  show "stored_checker_award after_two_tasks ''alice'' 1000 = 10"
    by (simp add: stored_checker_award_def stored_entry_def after_two_tasks_file
        get_checker_points_awarded_def)
qed

theorem checker_high_water_mark_witness:
  "[am_ticked, pm_ticked] \<noteq> [] \<and> stored_checker_award empty_state ''alice'' 1000 = 0
   \<and> stored_points (checker_finalizes empty_state ''alice'' 1000 [am_ticked, pm_ticked]) ''alice''
        - stored_points empty_state ''alice''
       = 5 * Max (set (observed_counts empty_state ''alice'' 1000 [am_ticked, pm_ticked]))
   \<and> 5 * observed_count after_two_tasks ''alice'' 1000 pm_ticked
        < stored_checker_award after_two_tasks ''alice'' 1000
   \<and> stored_points (checker_finalize after_two_tasks ''alice'' 1000 pm_ticked) ''alice''
       = stored_points after_two_tasks ''alice''
   \<and> stored_checker_award (checker_finalize after_two_tasks ''alice'' 1000 pm_ticked) ''alice'' 1000
       = 10"
proof -
  have h1: "[am_ticked, pm_ticked] \<noteq> [] \<and> stored_checker_award empty_state ''alice'' 1000 = 0"
    by (simp add: stored_checker_award_def stored_entry_def empty_state_missing)
  have h2: "5 * observed_count after_two_tasks ''alice'' 1000 pm_ticked
              < stored_checker_award after_two_tasks ''alice'' 1000"
    by (simp add: after_two_tasks_observed)
  from checker_high_water_mark [of "[am_ticked, pm_ticked]" empty_state "''alice''" 1000
      after_two_tasks pm_ticked] h1 h2
  show ?thesis
    by (simp add: after_two_tasks_observed)
qed

section \<open>Checker and routine finalizes on one date\<close>

lemma completed_am: "completed_tasks (tick_tasks [] am_ticked) = 2"
  by (simp add: tick_am completed_tasks_def)

lemma after_first_checker_file:
  "data_file after_first_checker ''alice'' =
     Some (routine_user\<lparr>daily_completion := [1000 \<mapsto>
             \<lparr>morning = Some (tick_steps [] 3 none_ticked),
               evening = Some (tick_steps [] 4 none_ticked), is_complete = Some False,
               points_awarded = Some 0, checker = Some (tick_tasks [] am_ticked),
               checker_points_awarded = Some 10\<rparr>],
             points := Some 10\<rparr>)"
  using completed_am
  by (simp add: after_first_checker_def checker_finalize_def daily_routine_ai_checker_page_def
      gud_loaded [OF after_incomplete_file] checker_view_def Let_def write_through_def
      update_user_points_def set_user_def save_DATA_def get_points_def
      get_checker_points_awarded_def)

lemma after_second_routine_file:
  "data_file after_second_routine ''alice'' =
     Some (routine_user\<lparr>daily_completion := [1000 \<mapsto>
             \<lparr>morning = Some (tick_steps (tick_steps [] 3 none_ticked) 3 all_ticked),
               evening = Some (tick_steps (tick_steps [] 4 none_ticked) 4 all_ticked),
               is_complete = Some True,
               points_awarded = Some 5, checker = None, checker_points_awarded = None\<rparr>],
             points := Some 15\<rparr>)"
proof -
  have h: "analysis_history routine_user = [demo_analysis]"
    by (simp add: routine_user_def demo_user_def)
  have l: "routine_morning demo_analysis \<noteq> []" "routine_evening demo_analysis \<noteq> []"
    using demo_analysis_routine by auto
  from routine_finalize_open [OF after_first_checker_file, of 1000 all_ticked all_ticked] h l
  show ?thesis
    by (simp add: after_second_routine_def count_ticked_all demo_analysis_routine stored_steps_def
        entry_is_complete_def get_points_def)
qed

text \<open>
  C2 fails on a run that the pages allow. On one date: a routine finalize with no step
  ticked, a checker finalize with two tasks ticked (10 points, award 10), a routine
  finalize with every step ticked, which replaces the entry of the date by one without
  the checker keys (award back to 0), and a checker finalize with the same two tasks,
  which pays 10 points again. The two checker finalizes grant 20 points; 5 times the
  largest observed count is 10.
\<close>

theorem checker_double_award:
  "observed_count after_incomplete ''alice'' 1000 am_ticked = 2
   \<and> stored_points after_first_checker ''alice'' - stored_points after_incomplete ''alice'' = 10
   \<and> stored_checker_award after_first_checker ''alice'' 1000 = 10
   \<and> stored_checker_award after_second_routine ''alice'' 1000 = 0
   \<and> observed_count after_second_routine ''alice'' 1000 am_ticked = 2
   \<and> stored_points after_second_checker ''alice'' - stored_points after_second_routine ''alice'' = 10
   \<and> stored_points after_second_checker ''alice'' = 25"
proof -
  have o1: "observed_count after_incomplete ''alice'' 1000 am_ticked = 2"
    using completed_am
    by (simp add: observed_count_def gud_loaded [OF after_incomplete_file] checker_view_def Let_def)
  have p1: "stored_points after_incomplete ''alice'' = 0"
    by (simp add: stored_points_def after_incomplete_file get_points_def)
  have p2: "stored_points after_first_checker ''alice'' = 10"
    by (simp add: stored_points_def after_first_checker_file get_points_def)
  have a2: "stored_checker_award after_first_checker ''alice'' 1000 = 10"
    by (simp add: stored_checker_award_def stored_entry_def after_first_checker_file
        get_checker_points_awarded_def)
  have a3: "stored_checker_award after_second_routine ''alice'' 1000 = 0"
    by (simp add: stored_checker_award_def stored_entry_def after_second_routine_file
        get_checker_points_awarded_def)
  have p3: "stored_points after_second_routine ''alice'' = 15"
    by (simp add: stored_points_def after_second_routine_file get_points_def)
  have o3: "observed_count after_second_routine ''alice'' 1000 am_ticked = 2"
    using completed_am
    by (simp add: observed_count_def gud_loaded [OF after_second_routine_file] checker_view_def
        Let_def)
  have p4: "stored_points after_second_checker ''alice'' = 25"
    using checker_effect(1) [of after_second_routine "''alice''" 1000 am_ticked]
    by (simp add: after_second_checker_def o3 a3 p3)
  from o1 p1 p2 a2 a3 p3 o3 p4 show ?thesis by simp
qed

end
